theory Spec2Isabelle
  imports Main
begin

section \<open>JavaScript values the route code works with\<close>

text \<open>
  The gate reads three optional properties of the object that \<^verbatim>\<open>verifyToken\<close> returns and
  combines them with \<^verbatim>\<open>||\<close>.  A property that is absent (\<^verbatim>\<open>undefined\<close>) is \<open>None\<close>.
  JavaScript's \<^verbatim>\<open>||\<close> picks its right operand when the left one is falsy: for a string
  that is \<^verbatim>\<open>undefined\<close> or the empty string, for a number \<^verbatim>\<open>undefined\<close> or zero.
\<close>

definition truthy_string :: "string option \<Rightarrow> bool" where
  "truthy_string s = (case s of None \<Rightarrow> False | Some t \<Rightarrow> t \<noteq> [])"

definition or_string :: "string option \<Rightarrow> string \<Rightarrow> string" where
  "or_string s d = (case s of None \<Rightarrow> d | Some t \<Rightarrow> if t \<noteq> [] then t else d)"

definition or_number :: "int option \<Rightarrow> int \<Rightarrow> int" where
  "or_number n d = (case n of None \<Rightarrow> d | Some k \<Rightarrow> if k \<noteq> 0 then k else d)"

text \<open>\<^verbatim>\<open>Array.prototype.includes\<close> on an array of strings.\<close>

fun includes_arr :: "'a list \<Rightarrow> 'a \<Rightarrow> bool" where
  "includes_arr [] x = False"
| "includes_arr (y # ys) x = (y = x \<or> includes_arr ys x)"

text \<open>
  JSON values: the bodies handed to \<^verbatim>\<open>NextResponse.json\<close> and the parsed request body.
  An object is the list of its properties in the order the source writes them; a property
  is read with \<open>map_of\<close>.  Numbers are kept as integers and strings as character lists:
  the code at hand only asks whether a value is a string and how long it is.
\<close>

datatype json =
    JNull
  | JBool bool
  | JNum int
  | JStr string
  | JArr "json list"
  | JObj "(string \<times> json) list"



text \<open>A call either throws (for an async function: its promise rejects) or returns.\<close>

datatype ('e, 'v) outcome = Throws 'e | Returns 'v

text \<open>
  \<^verbatim>\<open>NextResponse.json(body, { status })\<close> belongs to the framework and builds the response
  the way the Fetch standard initialises one.  The status is read as an unsigned 16-bit
  number (so it is reduced modulo 65536); outside 200..599 the constructor throws a
  \<^verbatim>\<open>RangeError\<close>; for a status that allows no body (204, 205, 304) it throws a
  \<^verbatim>\<open>TypeError\<close>, since a JSON body is always there.  A call that passes no init object
  gets status 200 and cannot be refused.
\<close>

datatype js_error = RangeError | TypeError

record response =
  body :: json
  resp_status :: int

definition refused_status :: "int \<Rightarrow> js_error option" where
  "refused_status k =
     (let s = k mod 65536 in
      if s < 200 \<or> 599 < s then Some RangeError
      else if s = 204 \<or> s = 205 \<or> s = 304 then Some TypeError
      else None)"

definition NextResponse_json :: "json \<Rightarrow> int \<Rightarrow> (js_error, response) outcome" where
  "NextResponse_json b k =
     (case refused_status k of
        Some err \<Rightarrow> Throws err
      | None \<Rightarrow> Returns \<lparr>body = b, resp_status = k mod 65536\<rparr>)"


section \<open>The authorization gate: \<^verbatim>\<open>protectedRoute\<close>\<close>

text \<open>
  \<^verbatim>\<open>auth.decoded\<close> carries \<^verbatim>\<open>id\<close> and \<^verbatim>\<open>role\<close>; the role is whatever string the token holds.
\<close>

record claims =
  decoded_id :: string
  decoded_role :: string

text \<open>
  The object \<^verbatim>\<open>verifyToken(req)\<close> returns.  \<^verbatim>\<open>verifyToken\<close> lives in
  \<^verbatim>\<open>lib/middleware/verify-token\<close>, outside the files at hand, so the gate takes it as a
  parameter (a call that returns) and the type assumes nothing about which of the three
  properties it fills in.
\<close>

record auth =
  error :: "string option"
  decoded :: "claims option"
  status :: "int option"

text \<open>\<^verbatim>\<open>req.user\<close>, and the request with everything else it holds kept in \<open>rest\<close>.\<close>

record identity =
  user_id :: string
  user_role :: string

record 'q request =
  user :: "identity option"
  rest :: 'q

text \<open>
  A handler gets the request object and the remaining arguments; it may change the request
  it was handed, so it gives back the request along with how the call ended.
\<close>

type_synonym ('e, 'v, 'q, 'a) handler =
  "'q request \<Rightarrow> 'a list \<Rightarrow> ('e, 'v) outcome \<times> 'q request"

text \<open>
  What the guarded handler returns: a response built by the gate itself, or whatever the
  wrapped handler returned.  What it throws: the error of the response constructor, or
  whatever the wrapped handler threw.
\<close>

datatype 'v returned = Rejection response | Result 'v

datatype 'e thrown = ByGate js_error | ByHandler 'e

text \<open>
  One invocation of the guarded handler: how it ended, the request object afterwards, and
  the calls it made to the wrapped handler (the request and arguments of each).
\<close>

record ('e, 'v, 'q, 'a) run =
  reply :: "('e thrown, 'v returned) outcome"
  req_after :: "'q request"
  calls :: "('q request \<times> 'a list) list"

definition pass_on :: "('e, 'v) outcome \<Rightarrow> ('e thrown, 'v returned) outcome" where
  "pass_on r =
     (case r of Throws e \<Rightarrow> Throws (ByHandler e) | Returns v \<Rightarrow> Returns (Result v))"

text \<open>
  \<^verbatim>\<open>return NextResponse.json(...)\<close> inside the gate: the response is returned when the
  constructor built one; when the constructor throws, so does the guarded handler.  No
  handler has been called, the request is as it came.
\<close>

definition return_response ::
  "(js_error, response) outcome \<Rightarrow> 'q request \<Rightarrow> ('e, 'v, 'q, 'a) run"
where
  "return_response built req =
     \<lparr>reply = (case built of
                 Throws err \<Rightarrow> Throws (ByGate err)
               | Returns r \<Rightarrow> Returns (Rejection r)),
      req_after = req, calls = []\<rparr>"

text \<open>The two responses the gate builds itself (lines 9--12 and 17--20 of the source).\<close>

definition authentication_failed :: "auth \<Rightarrow> (js_error, response) outcome" where
  "authentication_failed a =
     NextResponse_json
       (JObj [(''success'', JBool False),
              (''message'', JStr (or_string (error a) ''Authentication failed''))])
       (or_number (status a) 401)"

definition access_denied :: "(js_error, response) outcome" where
  "access_denied =
     NextResponse_json
       (JObj [(''success'', JBool False), (''message'', JStr ''Forbidden: Access denied'')])
       403"

text \<open>
  The guarded handler \<^verbatim>\<open>protectedRoute(handler, allowedRoles)\<close>, applied to a request and
  the remaining arguments.  \<open>allowedRoles = None\<close> is the omitted parameter; an array, also
  the empty one, is truthy.  The \<open>None\<close> branch of the inner case is the same rejection
  as the first test: \<^verbatim>\<open>!auth.decoded\<close> has already sent a missing \<^verbatim>\<open>decoded\<close> there.
\<close>

definition protectedRoute ::
  "('q request \<Rightarrow> auth) \<Rightarrow> ('e, 'v, 'q, 'a) handler \<Rightarrow> string list option \<Rightarrow>
   'q request \<Rightarrow> 'a list \<Rightarrow> ('e, 'v, 'q, 'a) run"
where
  "protectedRoute verifyToken handler allowedRoles req args =
    (let a = verifyToken req in
     if truthy_string (error a) \<or> decoded a = None then
       return_response (authentication_failed a) req
     else
       (case decoded a of
          None \<Rightarrow> return_response (authentication_failed a) req
        | Some d \<Rightarrow>
            if (case allowedRoles of
                  None \<Rightarrow> False
                | Some rs \<Rightarrow> \<not> includes_arr rs (decoded_role d)) then
              return_response access_denied req
            else
              (let req' = req\<lparr>user := Some \<lparr>user_id = decoded_id d,
                                                user_role = decoded_role d\<rparr>\<rparr>;
                   r = handler req' args
               in \<lparr>reply = pass_on (fst r), req_after = snd r,
                   calls = [(req', args)]\<rparr>)))"

section \<open>The profile update route: \<^verbatim>\<open>PATCH\<close>\<close>


















section \<open>The role enumeration and sample inputs\<close>

text \<open>The \<^verbatim>\<open>UserRole\<close> enum of the database schema.\<close>

definition UserRole :: "string set" where
  "UserRole = {''CUSTOMER'', ''BUSINESS_OWNER'', ''ADMIN''}"

text \<open>A \<^verbatim>\<open>verifyToken\<close> that answers \<open>a\<close> for every request, and two handlers.\<close>

definition answers :: "auth \<Rightarrow> 'q request \<Rightarrow> auth" where
  "answers a req = a"

definition sample_handler :: "(string, string, 'q, string) handler" where
  "sample_handler req args = (Returns ''handled'', req)"

definition throwing_handler :: "(string, string, 'q, string) handler" where
  "throwing_handler req args = (Throws ''boom'', req)"



section \<open>The three paths of the gate\<close>

lemma includes_arr_set: "includes_arr xs x \<longleftrightarrow> x \<in> set xs"
  by (induction xs) auto


lemma access_denied_returns:
  "access_denied =
     Returns \<lparr>body = JObj [(''success'', JBool False),
                           (''message'', JStr ''Forbidden: Access denied'')],
              resp_status = 403\<rparr>"
  by (simp add: access_denied_def NextResponse_json_def refused_status_def)


lemma gate_rejects_failed:
  assumes "truthy_string (error (verifyToken req)) \<or> decoded (verifyToken req) = None"
  shows "protectedRoute verifyToken handler allowedRoles req args =
           return_response (authentication_failed (verifyToken req)) req"
  using assms by (simp add: protectedRoute_def Let_def)

lemma gate_rejects_role:
  assumes "\<not> truthy_string (error (verifyToken req))"
    and "decoded (verifyToken req) = Some d"
    and "allowedRoles = Some rs"
    and "decoded_role d \<notin> set rs"
  shows "protectedRoute verifyToken handler allowedRoles req args =
           \<lparr>reply = Returns (Rejection
               \<lparr>body = JObj [(''success'', JBool False),
                              (''message'', JStr ''Forbidden: Access denied'')],
                resp_status = 403\<rparr>),
            req_after = req, calls = []\<rparr>"
  using assms
  by (simp add: protectedRoute_def Let_def includes_arr_set return_response_def
      access_denied_returns)

lemma gate_delegates:
  assumes "\<not> truthy_string (error (verifyToken req))"
    and "decoded (verifyToken req) = Some d"
    and "allowedRoles = None \<or> (\<exists>rs. allowedRoles = Some rs \<and> decoded_role d \<in> set rs)"
  shows "protectedRoute verifyToken handler allowedRoles req args =
           \<lparr>reply = pass_on (fst (handler
                (req\<lparr>user := Some \<lparr>user_id = decoded_id d, user_role = decoded_role d\<rparr>\<rparr>) args)),
            req_after = snd (handler
                (req\<lparr>user := Some \<lparr>user_id = decoded_id d, user_role = decoded_role d\<rparr>\<rparr>) args),
            calls = [(req\<lparr>user := Some \<lparr>user_id = decoded_id d, user_role = decoded_role d\<rparr>\<rparr>,
                      args)]\<rparr>"
  using assms by (auto simp add: protectedRoute_def Let_def includes_arr_set)








section \<open>When the wrapped handler runs\<close>




section \<open>Failed verification\<close>




section \<open>A role outside the allow-list\<close>

text \<open>
  Claim C3.  When the credential verifies to a Claims value (the test of line 8 passes:
  no non-empty error, \<^verbatim>\<open>decoded\<close> present) and an allow-list is given that does not
  contain the Claims role, the guarded handler returns a rejection with status 403, message
  exactly "Forbidden: Access denied" and \<^verbatim>\<open>success: false\<close>; the wrapped handler is not
  invoked.  This holds for every allow-list, the non-empty ones among them.
\<close>

theorem role_outside_allow_list_forbidden:
  assumes "\<not> truthy_string (error (verifyToken req))"
    and "decoded (verifyToken req) = Some d"
    and "allowedRoles = Some rs"
    and "decoded_role d \<notin> set rs"
  shows "protectedRoute verifyToken handler allowedRoles req args =
           \<lparr>reply = Returns (Rejection
               \<lparr>body = JObj [(''success'', JBool False),
                              (''message'', JStr ''Forbidden: Access denied'')],
                resp_status = 403\<rparr>),
            req_after = req, calls = []\<rparr>"
  using assms by (simp add: gate_rejects_role [where rs = rs])

text \<open>The second scenario of the specification: a customer at an ADMIN-only route.\<close>

theorem role_outside_allow_list_forbidden_witness:
  "\<not> truthy_string (error (answers
       \<lparr>error = None, decoded = Some \<lparr>decoded_id = ''u2'', decoded_role = ''CUSTOMER''\<rparr>,
        status = None\<rparr> \<lparr>user = None, rest = ()\<rparr>)) \<and>
   ''CUSTOMER'' \<notin> set [''ADMIN''] \<and>
   protectedRoute
       (answers \<lparr>error = None,
                 decoded = Some \<lparr>decoded_id = ''u2'', decoded_role = ''CUSTOMER''\<rparr>,
                 status = None\<rparr>)
       sample_handler (Some [''ADMIN'']) \<lparr>user = None, rest = ()\<rparr> [] =
     \<lparr>reply = Returns (Rejection
         \<lparr>body = JObj [(''success'', JBool False),
                        (''message'', JStr ''Forbidden: Access denied'')],
          resp_status = 403\<rparr>),
      req_after = \<lparr>user = None, rest = ()\<rparr>, calls = []\<rparr>"
  using role_outside_allow_list_forbidden
      [of "answers \<lparr>error = None,
                 decoded = Some \<lparr>decoded_id = ''u2'', decoded_role = ''CUSTOMER''\<rparr>,
                 status = None\<rparr>"
          "\<lparr>user = None, rest = ()\<rparr>"
          "\<lparr>decoded_id = ''u2'', decoded_role = ''CUSTOMER''\<rparr>"
          "Some [''ADMIN'']" "[''ADMIN'']" sample_handler "[]"]
  by (simp add: answers_def truthy_string_def)

section \<open>The authorized path\<close>

text \<open>
  Claim C4.  When the credential verifies to a Claims value and either no allow-list is
  given or the Claims role is a member of it, the gate writes
  \<^verbatim>\<open>{ id: decoded.id, role: decoded.role }\<close> to \<^verbatim>\<open>req.user\<close>, calls the wrapped handler exactly
  once, with that request and the arguments it was given, and ends the way the handler
  ends: a returned value is returned unchanged, a thrown value is thrown on.
\<close>

theorem authorized_request_delegated:
  fixes verifyToken :: "'q request \<Rightarrow> auth" and handler :: "('e, 'v, 'q, 'a) handler"
    and allowedRoles req args d
  defines "req' \<equiv> req\<lparr>user := Some \<lparr>user_id = decoded_id d, user_role = decoded_role d\<rparr>\<rparr>"
  defines "run \<equiv> protectedRoute verifyToken handler allowedRoles req args"
  assumes "\<not> truthy_string (error (verifyToken req))"
    and "decoded (verifyToken req) = Some d"
    and "allowedRoles = None \<or> (\<exists>rs. allowedRoles = Some rs \<and> decoded_role d \<in> set rs)"
  shows "calls run = [(req', args)] \<and>
         (case fst (handler req' args) of
            Returns v \<Rightarrow> reply run = Returns (Result v)
          | Throws e \<Rightarrow> reply run = Throws (ByHandler e)) \<and>
         req_after run = snd (handler req' args)"
  unfolding run_def req'_def using assms(3-5)
  by (simp add: gate_delegates [where d = d] pass_on_def split: outcome.splits)

text \<open>
  The first scenario of the specification (a customer, no allow-list), and a handler that
  throws behind an allow-list that has the role.
\<close>

theorem authorized_request_delegated_witness:
  "\<not> truthy_string (error (answers
       \<lparr>error = None, decoded = Some \<lparr>decoded_id = ''u1'', decoded_role = ''CUSTOMER''\<rparr>,
        status = None\<rparr> \<lparr>user = None, rest = ()\<rparr>)) \<and>
   calls (protectedRoute
       (answers \<lparr>error = None,
                 decoded = Some \<lparr>decoded_id = ''u1'', decoded_role = ''CUSTOMER''\<rparr>,
                 status = None\<rparr>)
       sample_handler None \<lparr>user = None, rest = ()\<rparr> [''extra'']) =
     [(\<lparr>user = Some \<lparr>user_id = ''u1'', user_role = ''CUSTOMER''\<rparr>, rest = ()\<rparr>, [''extra''])] \<and>
   reply (protectedRoute
       (answers \<lparr>error = None,
                 decoded = Some \<lparr>decoded_id = ''u1'', decoded_role = ''CUSTOMER''\<rparr>,
                 status = None\<rparr>)
       sample_handler None \<lparr>user = None, rest = ()\<rparr> [''extra'']) =
     Returns (Result ''handled'') \<and>
   reply (protectedRoute
       (answers \<lparr>error = None,
                 decoded = Some \<lparr>decoded_id = ''u1'', decoded_role = ''CUSTOMER''\<rparr>,
                 status = None\<rparr>)
       throwing_handler (Some [''ADMIN'', ''CUSTOMER'']) \<lparr>user = None, rest = ()\<rparr> []) =
     Throws (ByHandler ''boom'')"
  using authorized_request_delegated
      [of "answers \<lparr>error = None,
                 decoded = Some \<lparr>decoded_id = ''u1'', decoded_role = ''CUSTOMER''\<rparr>,
                 status = None\<rparr>"
          "\<lparr>user = None, rest = ()\<rparr>"
          "\<lparr>decoded_id = ''u1'', decoded_role = ''CUSTOMER''\<rparr>"
          None sample_handler "[''extra'']"]
    authorized_request_delegated
      [of "answers \<lparr>error = None,
                 decoded = Some \<lparr>decoded_id = ''u1'', decoded_role = ''CUSTOMER''\<rparr>,
                 status = None\<rparr>"
          "\<lparr>user = None, rest = ()\<rparr>"
          "\<lparr>decoded_id = ''u1'', decoded_role = ''CUSTOMER''\<rparr>"
          "Some [''ADMIN'', ''CUSTOMER'']" throwing_handler "[]"]
  by (simp add: answers_def truthy_string_def sample_handler_def throwing_handler_def)

section \<open>Role strings and the enumeration\<close>

text \<open>
  Claim C5.  For a request whose credential verifies to a Claims value: when no allow-list
  is given, the handler is invoked whatever the role string is, also one outside the
  enumeration; when an allow-list is given (per the contract of the gate, a list of roles
  drawn from \<open>{CUSTOMER, BUSINESS_OWNER, ADMIN}\<close>), a role string outside the enumeration
  is not a member of it and the request is rejected with 403, the handler not invoked.
\<close>

theorem role_outside_enum_passes_only_without_list:
  fixes verifyToken :: "'q request \<Rightarrow> auth" and handler :: "('e, 'v, 'q, 'a) handler"
    and allowedRoles req args d
  defines "req' \<equiv> req\<lparr>user := Some \<lparr>user_id = decoded_id d, user_role = decoded_role d\<rparr>\<rparr>"
  defines "run \<equiv> protectedRoute verifyToken handler allowedRoles req args"
  assumes "\<not> truthy_string (error (verifyToken req))"
    and "decoded (verifyToken req) = Some d"
  shows "(allowedRoles = None \<longrightarrow>
            calls run = [(req', args)] \<and> reply run = pass_on (fst (handler req' args))) \<and>
         (\<forall>rs. allowedRoles = Some rs \<and> set rs \<subseteq> UserRole \<and> decoded_role d \<notin> UserRole \<longrightarrow>
            calls run = [] \<and>
            reply run = Returns (Rejection
              \<lparr>body = JObj [(''success'', JBool False),
                             (''message'', JStr ''Forbidden: Access denied'')],
               resp_status = 403\<rparr>))"
proof -
  have none: "calls run = [(req', args)] \<and> reply run = pass_on (fst (handler req' args))"
    if "allowedRoles = None"
    using that assms(3,4) unfolding run_def req'_def
    by (simp add: gate_delegates [where d = d])
  have other: "calls run = [] \<and>
      reply run = Returns (Rejection
        \<lparr>body = JObj [(''success'', JBool False),
                       (''message'', JStr ''Forbidden: Access denied'')],
         resp_status = 403\<rparr>)"
    if "allowedRoles = Some rs" and "decoded_role d \<notin> set rs" for rs
    using that assms(3,4) unfolding run_def
    by (simp add: gate_rejects_role [where rs = rs])
  have enum: "decoded_role d \<notin> set rs"
    if "set rs \<subseteq> UserRole" and "decoded_role d \<notin> UserRole" for rs
    using that by blast
  from none other enum show ?thesis by simp
qed

text \<open>
  A role outside the enumeration passes when no allow-list is given and is rejected by an
  allow-list drawn from the enumeration.
\<close>

theorem role_outside_enum_passes_only_without_list_witness:
  "''MODERATOR'' \<notin> UserRole \<and> set [''ADMIN'', ''CUSTOMER''] \<subseteq> UserRole \<and>
   calls (protectedRoute
       (answers \<lparr>error = None,
                 decoded = Some \<lparr>decoded_id = ''u3'', decoded_role = ''MODERATOR''\<rparr>,
                 status = None\<rparr>)
       sample_handler None \<lparr>user = None, rest = ()\<rparr> []) =
     [(\<lparr>user = Some \<lparr>user_id = ''u3'', user_role = ''MODERATOR''\<rparr>, rest = ()\<rparr>, [])] \<and>
   reply (protectedRoute
       (answers \<lparr>error = None,
                 decoded = Some \<lparr>decoded_id = ''u3'', decoded_role = ''MODERATOR''\<rparr>,
                 status = None\<rparr>)
       sample_handler None \<lparr>user = None, rest = ()\<rparr> []) = Returns (Result ''handled'') \<and>
   calls (protectedRoute
       (answers \<lparr>error = None,
                 decoded = Some \<lparr>decoded_id = ''u3'', decoded_role = ''MODERATOR''\<rparr>,
                 status = None\<rparr>)
       sample_handler (Some [''ADMIN'', ''CUSTOMER'']) \<lparr>user = None, rest = ()\<rparr> []) = [] \<and>
   reply (protectedRoute
       (answers \<lparr>error = None,
                 decoded = Some \<lparr>decoded_id = ''u3'', decoded_role = ''MODERATOR''\<rparr>,
                 status = None\<rparr>)
       sample_handler (Some [''ADMIN'', ''CUSTOMER'']) \<lparr>user = None, rest = ()\<rparr> []) =
     Returns (Rejection
       \<lparr>body = JObj [(''success'', JBool False),
                      (''message'', JStr ''Forbidden: Access denied'')],
        resp_status = 403\<rparr>)"
  using role_outside_enum_passes_only_without_list
      [of "answers \<lparr>error = None,
                 decoded = Some \<lparr>decoded_id = ''u3'', decoded_role = ''MODERATOR''\<rparr>,
                 status = None\<rparr>"
          "\<lparr>user = None, rest = ()\<rparr>"
          "\<lparr>decoded_id = ''u3'', decoded_role = ''MODERATOR''\<rparr>"
          None sample_handler "[]"]
    role_outside_enum_passes_only_without_list
      [of "answers \<lparr>error = None,
                 decoded = Some \<lparr>decoded_id = ''u3'', decoded_role = ''MODERATOR''\<rparr>,
                 status = None\<rparr>"
          "\<lparr>user = None, rest = ()\<rparr>"
          "\<lparr>decoded_id = ''u3'', decoded_role = ''MODERATOR''\<rparr>"
          "Some [''ADMIN'', ''CUSTOMER'']" sample_handler "[]"]
  by (simp add: answers_def truthy_string_def UserRole_def sample_handler_def pass_on_def)

section \<open>What the gate writes\<close>

text \<open>
  Claim C6.  On every invocation, either the gate calls no handler and leaves the request
  exactly as it was (it returns a rejection, or the response constructor throws), or it
  makes one write, \<^verbatim>\<open>req.user = { id, role }\<close> from the decoded Claims, and hands that
  request to the handler (whose own doing is then what is left of the request).  Every
  request a handler is called with agrees with the incoming request on everything but
  \<^verbatim>\<open>user\<close>.
\<close>

theorem gate_only_writes_user:
  fixes verifyToken :: "'q request \<Rightarrow> auth" and handler :: "('e, 'v, 'q, 'a) handler"
    and allowedRoles req args
  defines "run \<equiv> protectedRoute verifyToken handler allowedRoles req args"
  shows "(((\<exists>r. reply run = Returns (Rejection r)) \<or> (\<exists>err. reply run = Throws (ByGate err))) \<and>
          calls run = [] \<and> req_after run = req \<or>
          (\<exists>d. decoded (verifyToken req) = Some d \<and>
               calls run =
                 [(req\<lparr>user := Some \<lparr>user_id = decoded_id d, user_role = decoded_role d\<rparr>\<rparr>,
                   args)] \<and>
               req_after run =
                 snd (handler
                   (req\<lparr>user := Some \<lparr>user_id = decoded_id d, user_role = decoded_role d\<rparr>\<rparr>)
                   args))) \<and>
         (\<forall>c \<in> set (calls run). (fst c)\<lparr>user := user req\<rparr> = req)"
  unfolding run_def
  by (auto simp add: protectedRoute_def Let_def return_response_def
      split: option.splits outcome.splits)

text \<open>
  A request that carries a payload and a stale \<^verbatim>\<open>user\<close>: rejected, it comes back as it
  was; authorized, the handler sees the payload and the fresh binding.
\<close>

theorem gate_only_writes_user_witness:
  "req_after (protectedRoute
       (answers \<lparr>error = None,
                 decoded = Some \<lparr>decoded_id = ''u2'', decoded_role = ''CUSTOMER''\<rparr>,
                 status = None\<rparr>)
       sample_handler (Some [''ADMIN''])
       \<lparr>user = Some \<lparr>user_id = ''stale'', user_role = ''ADMIN''\<rparr>, rest = ''payload''\<rparr>
       [''extra'']) =
     \<lparr>user = Some \<lparr>user_id = ''stale'', user_role = ''ADMIN''\<rparr>, rest = ''payload''\<rparr> \<and>
   calls (protectedRoute
       (answers \<lparr>error = None,
                 decoded = Some \<lparr>decoded_id = ''u2'', decoded_role = ''CUSTOMER''\<rparr>,
                 status = None\<rparr>)
       sample_handler None
       \<lparr>user = Some \<lparr>user_id = ''stale'', user_role = ''ADMIN''\<rparr>, rest = ''payload''\<rparr>
       [''extra'']) =
     [(\<lparr>user = Some \<lparr>user_id = ''u2'', user_role = ''CUSTOMER''\<rparr>, rest = ''payload''\<rparr>,
       [''extra''])]"
  using gate_only_writes_user
      [of "answers \<lparr>error = None,
                 decoded = Some \<lparr>decoded_id = ''u2'', decoded_role = ''CUSTOMER''\<rparr>,
                 status = None\<rparr>"
          sample_handler "Some [''ADMIN'']"
          "\<lparr>user = Some \<lparr>user_id = ''stale'', user_role = ''ADMIN''\<rparr>, rest = ''payload''\<rparr>"
          "[''extra'']"]
    gate_only_writes_user
      [of "answers \<lparr>error = None,
                 decoded = Some \<lparr>decoded_id = ''u2'', decoded_role = ''CUSTOMER''\<rparr>,
                 status = None\<rparr>"
          sample_handler None
          "\<lparr>user = Some \<lparr>user_id = ''stale'', user_role = ''ADMIN''\<rparr>, rest = ''payload''\<rparr>"
          "[''extra'']"]
  by (simp add: answers_def protectedRoute_def Let_def truthy_string_def sample_handler_def
      return_response_def)

section \<open>Rejections are return values when the constructor builds them\<close>




section \<open>The decision depends on the verification result and the allow-list only\<close>

text \<open>
  Claim C8.  Two invocations with the same verification result and the same
  \<^verbatim>\<open>allowedRoles\<close>, whatever the requests, handlers and arguments are, reach the same
  decision: both are rejected, with the same response (status and message) or, where the
  response constructor refuses the status, the same error, or both call their handler
  once, with the same identity bound.
\<close>

theorem decision_fixed_by_verification_and_roles:
  fixes verifyToken1 :: "'q1 request \<Rightarrow> auth" and handler1 :: "('e1, 'v1, 'q1, 'a1) handler"
    and verifyToken2 :: "'q2 request \<Rightarrow> auth" and handler2 :: "('e2, 'v2, 'q2, 'a2) handler"
    and allowedRoles req1 req2 args1 args2
  defines "run1 \<equiv> protectedRoute verifyToken1 handler1 allowedRoles req1 args1"
  defines "run2 \<equiv> protectedRoute verifyToken2 handler2 allowedRoles req2 args2"
  assumes "verifyToken1 req1 = verifyToken2 req2"
  shows "(\<exists>r. reply run1 = Returns (Rejection r) \<and> reply run2 = Returns (Rejection r) \<and>
              calls run1 = [] \<and> calls run2 = []) \<or>
         (\<exists>err. reply run1 = Throws (ByGate err) \<and> reply run2 = Throws (ByGate err) \<and>
              calls run1 = [] \<and> calls run2 = []) \<or>
         (\<exists>b rq1 rq2. calls run1 = [(rq1, args1)] \<and> calls run2 = [(rq2, args2)] \<and>
              user rq1 = Some b \<and> user rq2 = Some b)"
proof -
  let ?a = "verifyToken2 req2"
  consider (failed) "truthy_string (error ?a) \<or> decoded ?a = None"
    | (denied) d rs where "\<not> truthy_string (error ?a)" and "decoded ?a = Some d"
        and "allowedRoles = Some rs" and "decoded_role d \<notin> set rs"
    | (passed) d where "\<not> truthy_string (error ?a)" and "decoded ?a = Some d"
        and "allowedRoles = None \<or> (\<exists>rs. allowedRoles = Some rs \<and> decoded_role d \<in> set rs)"
    by (cases "decoded ?a"; cases allowedRoles) auto
  then show ?thesis
  proof cases
    case failed
    then have "run1 = return_response (authentication_failed ?a) req1"
      and "run2 = return_response (authentication_failed ?a) req2"
      using assms(3) unfolding run1_def run2_def by (simp_all add: gate_rejects_failed)
    then show ?thesis
      by (cases "authentication_failed ?a") (simp_all add: return_response_def)
  next
    case denied
    then show ?thesis
      using assms(3) unfolding run1_def run2_def
      by (simp add: gate_rejects_role [where rs = rs])
  next
    case passed
    then show ?thesis
      using assms(3) unfolding run1_def run2_def
      by (simp add: gate_delegates [where d = d])
  qed
qed

text \<open>
  The same customer token at an ADMIN-only route, on two different requests in front of
  two different handlers: the same reply.
\<close>

theorem decision_fixed_by_verification_and_roles_witness:
  "answers \<lparr>error = None,
            decoded = Some \<lparr>decoded_id = ''u2'', decoded_role = ''CUSTOMER''\<rparr>,
            status = None\<rparr> \<lparr>user = None, rest = ()\<rparr> =
   answers \<lparr>error = None,
            decoded = Some \<lparr>decoded_id = ''u2'', decoded_role = ''CUSTOMER''\<rparr>,
            status = None\<rparr> \<lparr>user = None, rest = ''payload''\<rparr> \<and>
   reply (protectedRoute
       (answers \<lparr>error = None,
                 decoded = Some \<lparr>decoded_id = ''u2'', decoded_role = ''CUSTOMER''\<rparr>,
                 status = None\<rparr>)
       sample_handler (Some [''ADMIN'']) \<lparr>user = None, rest = ()\<rparr> []) =
   reply (protectedRoute
       (answers \<lparr>error = None,
                 decoded = Some \<lparr>decoded_id = ''u2'', decoded_role = ''CUSTOMER''\<rparr>,
                 status = None\<rparr>)
       throwing_handler (Some [''ADMIN'']) \<lparr>user = None, rest = ''payload''\<rparr> [''extra''])"
  using decision_fixed_by_verification_and_roles
      [of "answers \<lparr>error = None,
                 decoded = Some \<lparr>decoded_id = ''u2'', decoded_role = ''CUSTOMER''\<rparr>,
                 status = None\<rparr>"
          "\<lparr>user = None, rest = ()\<rparr>"
          "answers \<lparr>error = None,
                 decoded = Some \<lparr>decoded_id = ''u2'', decoded_role = ''CUSTOMER''\<rparr>,
                 status = None\<rparr>"
          "\<lparr>user = None, rest = ''payload''\<rparr>"
          sample_handler "Some [''ADMIN'']" "[]" throwing_handler "[''extra'']"]
  by (simp add: answers_def protectedRoute_def Let_def truthy_string_def return_response_def)

section \<open>The empty allow-list\<close>

text \<open>
  Claim C9, as amended.  With \<^verbatim>\<open>allowedRoles = []\<close> the wrapped handler is never invoked
  and the request is left as it was, for every request; every request whose credential
  verifies to a Claims value is rejected with status 403 and message
  "Forbidden: Access denied".  The empty allow-list denies all authenticated callers.
\<close>

theorem empty_allow_list_denies_everyone:
  fixes verifyToken :: "'q request \<Rightarrow> auth" and handler :: "('e, 'v, 'q, 'a) handler"
    and req args
  defines "a \<equiv> verifyToken req"
  defines "run \<equiv> protectedRoute verifyToken handler (Some []) req args"
  shows "calls run = [] \<and> req_after run = req \<and>
         (\<not> truthy_string (error a) \<and> decoded a \<noteq> None \<longrightarrow>
            reply run = Returns (Rejection
              \<lparr>body = JObj [(''success'', JBool False),
                             (''message'', JStr ''Forbidden: Access denied'')],
               resp_status = 403\<rparr>))"
  unfolding run_def a_def
  by (auto simp add: protectedRoute_def Let_def return_response_def access_denied_returns
      split: option.splits)

text \<open>An administrator with a valid token in front of the empty allow-list.\<close>

theorem empty_allow_list_denies_everyone_witness:
  "\<not> truthy_string (error (answers
       \<lparr>error = None, decoded = Some \<lparr>decoded_id = ''u1'', decoded_role = ''ADMIN''\<rparr>,
        status = None\<rparr> \<lparr>user = None, rest = ()\<rparr>)) \<and>
   protectedRoute
       (answers \<lparr>error = None,
                 decoded = Some \<lparr>decoded_id = ''u1'', decoded_role = ''ADMIN''\<rparr>,
                 status = None\<rparr>)
       sample_handler (Some []) \<lparr>user = None, rest = ()\<rparr> [] =
     \<lparr>reply = Returns (Rejection
         \<lparr>body = JObj [(''success'', JBool False),
                        (''message'', JStr ''Forbidden: Access denied'')],
          resp_status = 403\<rparr>),
      req_after = \<lparr>user = None, rest = ()\<rparr>, calls = []\<rparr>"
  using empty_allow_list_denies_everyone
      [of "answers \<lparr>error = None,
                 decoded = Some \<lparr>decoded_id = ''u1'', decoded_role = ''ADMIN''\<rparr>,
                 status = None\<rparr>"
          sample_handler "\<lparr>user = None, rest = ()\<rparr>" "[]"]
  by (simp add: answers_def truthy_string_def run.equality)

text \<open>
  The claim as first stated fails at a request without credential: the verification test
  comes first, so the rejection is the 401 one, not the 403 one.
\<close>

theorem empty_allow_list_unauthenticated_gets_401:
  "reply (protectedRoute (answers \<lparr>error = None, decoded = None, status = None\<rparr>)
            sample_handler (Some []) \<lparr>user = None, rest = ()\<rparr> []) =
     Returns (Rejection
       \<lparr>body = JObj [(''success'', JBool False), (''message'', JStr ''Authentication failed'')],
        resp_status = 401\<rparr>) \<and>
   reply (protectedRoute (answers \<lparr>error = None, decoded = None, status = None\<rparr>)
            sample_handler (Some []) \<lparr>user = None, rest = ()\<rparr> []) \<noteq>
     Returns (Rejection
       \<lparr>body = JObj [(''success'', JBool False),
                      (''message'', JStr ''Forbidden: Access denied'')],
        resp_status = 403\<rparr>)"
  by (simp add: protectedRoute_def Let_def answers_def truthy_string_def
      return_response_def authentication_failed_def or_string_def or_number_def
      NextResponse_json_def refused_status_def)

section \<open>What the update handler catches\<close>




end
